theory Spec2Isabelle
  imports Complex_Main
begin

section \<open>Python values, exceptions and the operations the gateway uses on them\<close>

text \<open>
  The gateway (\<^verbatim>\<open>proxy-gateway/main.py\<close>) works on what \<^verbatim>\<open>response.json()\<close> returns:
  \<^verbatim>\<open>None\<close>, booleans, integers, floats, strings, lists and dictionaries with string keys.
  A float is a finite value or one of the three non-finite ones, which Python's JSON
  parser accepts as \<^verbatim>\<open>NaN\<close>, \<^verbatim>\<open>Infinity\<close> and \<^verbatim>\<open>-Infinity\<close>.
  A dictionary is an association list in insertion order, with distinct keys.
\<close>

datatype pyfloat = Finite rat | NaN | PosInf | NegInf

datatype pyval =
    PNone
  | PBool bool
  | PInt int
  | PFloat pyfloat
  | PStr string
  | PList "pyval list"
  | PDict "(string \<times> pyval) list"


text \<open>
  The exception classes that the modelled operations raise. The first four are subclasses
  of \<^verbatim>\<open>requests.RequestException\<close> (\<^verbatim>\<open>InvalidJSONError\<close> is the class that
  \<^verbatim>\<open>response.json()\<close> raises on a body that is not JSON); all eight are subclasses of
  \<^verbatim>\<open>Exception\<close>.
  The string is what \<^verbatim>\<open>str(e)\<close> returns; the texts produced by the interpreter and the
  libraries are schematic here.
\<close>

datatype exc_class =
    ConnectionError
  | Timeout
  | HTTPError
  | InvalidJSONError
  | KeyError
  | TypeError
  | AttributeError
  | SQLAlchemyError

datatype py_exception = Exc exc_class string

fun exc_class_of :: "py_exception \<Rightarrow> exc_class" where
  "exc_class_of (Exc c m) = c"

fun str_exc :: "py_exception \<Rightarrow> string" where
  "str_exc (Exc c m) = m"

fun is_RequestException :: "py_exception \<Rightarrow> bool" where
  "is_RequestException (Exc ConnectionError m) = True"
| "is_RequestException (Exc Timeout m) = True"
| "is_RequestException (Exc HTTPError m) = True"
| "is_RequestException (Exc InvalidJSONError m) = True"
| "is_RequestException (Exc c m) = False"

text \<open>\<^verbatim>\<open>d.get(key, default)\<close>: only a dictionary has the method.\<close>

fun py_get :: "pyval \<Rightarrow> string \<Rightarrow> pyval \<Rightarrow> py_exception + pyval" where
  "py_get (PDict d) k dflt = Inr (case map_of d k of None \<Rightarrow> dflt | Some v \<Rightarrow> v)"
| "py_get v k dflt = Inl (Exc AttributeError ''object has no attribute get'')"

text \<open>\<^verbatim>\<open>d.items()\<close>: only a dictionary has the method.\<close>

fun py_items :: "pyval \<Rightarrow> py_exception + (string \<times> pyval) list" where
  "py_items (PDict d) = Inr d"
| "py_items v = Inl (Exc AttributeError ''object has no attribute items'')"

text \<open>
  \<^verbatim>\<open>d[key]\<close> with a string key: a dictionary without the key raises \<^verbatim>\<open>KeyError\<close>, every
  other value raises \<^verbatim>\<open>TypeError\<close> (not subscriptable, or indices must be integers).
\<close>

fun py_subscript :: "pyval \<Rightarrow> string \<Rightarrow> py_exception + pyval" where
  "py_subscript (PDict d) k =
     (case map_of d k of None \<Rightarrow> Inl (Exc KeyError k) | Some v \<Rightarrow> Inr v)"
| "py_subscript v k = Inl (Exc TypeError ''object is not subscriptable by str'')"

section \<open>The upstream request\<close>

text \<open>
  What the network gives for one \<^verbatim>\<open>requests.get(url, timeout=REQUEST_TIMEOUT)\<close>: no
  connection, no answer within the timeout, or a response with a status code and a body,
  which is \<open>None\<close> when it is not JSON.
\<close>

record response =
  status_code :: nat
  body :: "pyval option"

datatype get_outcome = ConnectionFailed | TimedOut | Got response

fun requests_get :: "get_outcome \<Rightarrow> py_exception + response" where
  "requests_get ConnectionFailed = Inl (Exc ConnectionError ''connection failed'')"
| "requests_get TimedOut = Inl (Exc Timeout ''request timed out'')"
| "requests_get (Got r) = Inr r"

definition raise_for_status :: "response \<Rightarrow> py_exception + unit" where
  "raise_for_status r =
     (if 400 \<le> status_code r \<and> status_code r < 600
      then Inl (Exc HTTPError ''error status'') else Inr ())"

definition response_json :: "response \<Rightarrow> py_exception + pyval" where
  "response_json r =
     (case body r of None \<Rightarrow> Inl (Exc InvalidJSONError ''body is not JSON'') | Some v \<Rightarrow> Inr v)"

section \<open>The source clients: \<^verbatim>\<open>fetch_uccx_metrics\<close> and \<^verbatim>\<open>fetch_cucm_metrics\<close>\<close>

text \<open>
  The loop \<^verbatim>\<open>for metric_name, metric_info in metrics_data.items(): metrics.append({...})\<close>.
  The dictionary literal evaluates \<^verbatim>\<open>metric_info["value"]\<close> and then
  \<^verbatim>\<open>metric_info["unit"]\<close>; the first exception leaves the loop and the function.
\<close>

fun flatten_metrics :: "pyval \<Rightarrow> (string \<times> pyval) list \<Rightarrow> py_exception + pyval list" where
  "flatten_metrics server_type [] = Inr []"
| "flatten_metrics server_type ((metric_name, metric_info) # rest) =
     (case py_subscript metric_info ''value'' of
        Inl e \<Rightarrow> Inl e
      | Inr v \<Rightarrow>
         (case py_subscript metric_info ''unit'' of
            Inl e \<Rightarrow> Inl e
          | Inr u \<Rightarrow>
             (case flatten_metrics server_type rest of
                Inl e \<Rightarrow> Inl e
              | Inr metrics \<Rightarrow>
                  Inr (PDict [(''server_type'', server_type),
                              (''metric_name'', PStr metric_name),
                              (''metric_value'', v),
                              (''unit'', u)] # metrics))))"

text \<open>
  The body shared by the two fetch functions, which differ in the URL and in the default
  of \<^verbatim>\<open>data.get("server_type", ...)\<close>.
\<close>

definition fetch_metrics :: "string \<Rightarrow> get_outcome \<Rightarrow> py_exception + pyval list" where
  "fetch_metrics default_type net =
     (case requests_get net of
        Inl e \<Rightarrow> Inl e
      | Inr resp \<Rightarrow>
         (case raise_for_status resp of
            Inl e \<Rightarrow> Inl e
          | Inr _ \<Rightarrow>
             (case response_json resp of
                Inl e \<Rightarrow> Inl e
              | Inr data \<Rightarrow>
                 (case py_get data ''server_type'' (PStr default_type) of
                    Inl e \<Rightarrow> Inl e
                  | Inr server_type \<Rightarrow>
                     (case py_get data ''metrics'' (PDict []) of
                        Inl e \<Rightarrow> Inl e
                      | Inr metrics_data \<Rightarrow>
                         (case py_items metrics_data of
                            Inl e \<Rightarrow> Inl e
                          | Inr items \<Rightarrow> flatten_metrics server_type items))))))"

definition fetch_uccx_metrics :: "get_outcome \<Rightarrow> py_exception + pyval list" where
  "fetch_uccx_metrics net = fetch_metrics ''uccx'' net"

definition fetch_cucm_metrics :: "get_outcome \<Rightarrow> py_exception + pyval list" where
  "fetch_cucm_metrics net = fetch_metrics ''cucm'' net"

section \<open>The store: \<^verbatim>\<open>TelephonyMetric\<close>, the session and \<^verbatim>\<open>DatabaseSession\<close>\<close>

text \<open>
  A row of \<^verbatim>\<open>telephony_metrics\<close> as the gateway builds it; \<^verbatim>\<open>id\<close> and \<^verbatim>\<open>timestamp\<close> are
  assigned by the database and no function modelled here reads them.
\<close>

record telephony_metric =
  server_type :: pyval
  metric_name :: pyval
  metric_value :: pyval
  unit :: pyval

text \<open>
  The database and the session opened on it: the committed rows, the objects added to the
  session and not yet flushed, and the number of sessions opened and not yet closed.
  \<^verbatim>\<open>SessionLocal\<close> is the session factory that \<^verbatim>\<open>lifespan\<close> sets at startup, before any run.
\<close>

record store =
  table :: "telephony_metric list"
  pending :: "telephony_metric list"
  open_sessions :: nat

text \<open>
  Whether the database takes a batch at commit is its own decision (connection loss,
  constraint violation): \<open>None\<close> when it takes it, the exception it raises otherwise.
\<close>

type_synonym db_verdict = "telephony_metric list \<Rightarrow> py_exception option"

definition session_maker :: "store \<Rightarrow> store" where
  "session_maker st = st\<lparr>pending := [], open_sessions := open_sessions st + 1\<rparr>"

definition db_add :: "telephony_metric \<Rightarrow> store \<Rightarrow> store" where
  "db_add m st = st\<lparr>pending := pending st @ [m]\<rparr>"

definition db_commit :: "db_verdict \<Rightarrow> store \<Rightarrow> py_exception + store" where
  "db_commit verdict st =
     (case verdict (pending st) of
        Some e \<Rightarrow> Inl e
      | None \<Rightarrow> Inr (st\<lparr>table := table st @ pending st, pending := []\<rparr>))"

definition db_rollback :: "store \<Rightarrow> store" where
  "db_rollback st = st\<lparr>pending := []\<rparr>"

definition db_close :: "store \<Rightarrow> store" where
  "db_close st = st\<lparr>pending := [], open_sessions := open_sessions st - 1\<rparr>"

text \<open>
  \<^verbatim>\<open>DatabaseSession.__exit__\<close>: the argument is the exception of the \<^verbatim>\<open>with\<close> body, if
  any. The method returns \<^verbatim>\<open>None\<close>, so that exception is raised again afterwards. When
  \<^verbatim>\<open>commit()\<close> raises, the method is left there and \<^verbatim>\<open>close()\<close> is not reached.
\<close>

definition DatabaseSession_exit ::
  "db_verdict \<Rightarrow> py_exception option \<Rightarrow> store \<Rightarrow> py_exception option \<times> store" where
  "DatabaseSession_exit verdict exc st =
     (case exc of
        Some e \<Rightarrow> (Some e, db_close (db_rollback st))
      | None \<Rightarrow>
         (case db_commit verdict st of
            Inl e \<Rightarrow> (Some e, st)
          | Inr st' \<Rightarrow> (None, db_close st')))"

text \<open>\<^verbatim>\<open>TelephonyMetric(server_type=metric_data["server_type"], ...)\<close>.\<close>

definition make_metric :: "pyval \<Rightarrow> py_exception + telephony_metric" where
  "make_metric metric_data =
     (case py_subscript metric_data ''server_type'' of
        Inl e \<Rightarrow> Inl e
      | Inr s \<Rightarrow>
         (case py_subscript metric_data ''metric_name'' of
            Inl e \<Rightarrow> Inl e
          | Inr n \<Rightarrow>
             (case py_subscript metric_data ''metric_value'' of
                Inl e \<Rightarrow> Inl e
              | Inr v \<Rightarrow>
                 (case py_subscript metric_data ''unit'' of
                    Inl e \<Rightarrow> Inl e
                  | Inr u \<Rightarrow>
                      Inr \<lparr>server_type = s, metric_name = n, metric_value = v, unit = u\<rparr>))))"

text \<open>The loop of \<^verbatim>\<open>save_metrics_to_database\<close>, with its counter.\<close>

fun add_metrics :: "pyval list \<Rightarrow> nat \<Rightarrow> store \<Rightarrow> (py_exception + nat) \<times> store" where
  "add_metrics [] count st = (Inr count, st)"
| "add_metrics (metric_data # rest) count st =
     (case make_metric metric_data of
        Inl e \<Rightarrow> (Inl e, st)
      | Inr metric \<Rightarrow> add_metrics rest (count + 1) (db_add metric st))"

definition save_metrics_to_database ::
  "db_verdict \<Rightarrow> pyval list \<Rightarrow> store \<Rightarrow> (py_exception + nat) \<times> store" where
  "save_metrics_to_database verdict metrics st =
     (case add_metrics metrics 0 (session_maker st) of
        (Inl e, st1) \<Rightarrow> (Inl e, snd (DatabaseSession_exit verdict (Some e) st1))
      | (Inr count, st1) \<Rightarrow>
         (case DatabaseSession_exit verdict None st1 of
            (Some e, st2) \<Rightarrow> (Inl e, st2)
          | (None, st2) \<Rightarrow> (Inr count, st2)))"

section \<open>The orchestrator: \<^verbatim>\<open>collect_all_metrics\<close>\<close>

type_synonym datetime = nat

text \<open>
  One run meets two upstream answers, a database verdict and a clock reading
  (\<^verbatim>\<open>datetime.utcnow()\<close> at the end of the run).
\<close>

record env =
  uccx_reply :: get_outcome
  cucm_reply :: get_outcome
  db_verdict :: db_verdict
  clock :: datetime

text \<open>The module globals that a run reads and writes, and the store.\<close>

record gateway =
  last_collection_time :: "datetime option"
  metrics_collected_count :: nat
  db :: store

text \<open>The dictionary that the run returns; \<^verbatim>\<open>isoformat()\<close> is left out.\<close>

record outcome =
  success :: bool
  uccx_metrics_count :: nat
  cucm_metrics_count :: nat
  total_saved :: nat
  errors :: "string list"
  timestamp :: datetime

text \<open>
  One \<^verbatim>\<open>try: ... except requests.RequestException as e: ...\<close> block around a fetch. It
  yields the records to extend \<^verbatim>\<open>all_metrics\<close> with, the count and the messages to append
  to \<^verbatim>\<open>errors\<close>; an exception of another class is not caught.
\<close>

definition try_fetch ::
  "string \<Rightarrow> (py_exception + pyval list) \<Rightarrow> py_exception + (pyval list \<times> nat \<times> string list)" where
  "try_fetch label fetched =
     (case fetched of
        Inr metrics \<Rightarrow> Inr (metrics, length metrics, [])
      | Inl e \<Rightarrow>
         (if is_RequestException e
          then Inr ([], 0, [''Failed to fetch '' @ label @ '' metrics: '' @ str_exc e])
          else Inl e))"

text \<open>
  The first half of \<^verbatim>\<open>collect_all_metrics\<close>, up to the store write: the values of
  \<^verbatim>\<open>errors\<close>, \<^verbatim>\<open>all_metrics\<close>, \<^verbatim>\<open>uccx_count\<close> and \<^verbatim>\<open>cucm_count\<close> there.
\<close>

definition collect_sources ::
  "env \<Rightarrow> py_exception + (string list \<times> pyval list \<times> nat \<times> nat)" where
  "collect_sources e =
     (case try_fetch ''UCCX'' (fetch_uccx_metrics (uccx_reply e)) of
        Inl x \<Rightarrow> Inl x
      | Inr (uccx_metrics, uccx_count, errs1) \<Rightarrow>
         (case try_fetch ''CUCM'' (fetch_cucm_metrics (cucm_reply e)) of
            Inl x \<Rightarrow> Inl x
          | Inr (cucm_metrics, cucm_count, errs2) \<Rightarrow>
              Inr (errs1 @ errs2, uccx_metrics @ cucm_metrics, uccx_count, cucm_count)))"

text \<open>
  The second half: the store write under \<^verbatim>\<open>except Exception\<close>, which catches every class
  modelled here, then the bookkeeping and the returned dictionary.
\<close>

definition save_and_report ::
  "env \<Rightarrow> gateway \<Rightarrow> string list \<times> pyval list \<times> nat \<times> nat \<Rightarrow> outcome \<times> gateway" where
  "save_and_report e g locals =
     (case locals of (errs, all_metrics, uccx_count, cucm_count) \<Rightarrow>
        (case (if all_metrics \<noteq> []
               then (case save_metrics_to_database (db_verdict e) all_metrics (db g) of
                       (Inr saved, st) \<Rightarrow>
                          (saved, errs,
                           g\<lparr>metrics_collected_count := metrics_collected_count g + saved,
                             db := st\<rparr>)
                     | (Inl x, st) \<Rightarrow>
                          (0, errs @ [''Failed to save metrics to database: '' @ str_exc x],
                           g\<lparr>db := st\<rparr>))
               else (0, errs, g)) of
           (saved, errs', g') \<Rightarrow>
             (\<lparr>success = (length errs' = 0),
               uccx_metrics_count = uccx_count,
               cucm_metrics_count = cucm_count,
               total_saved = saved,
               errors = errs',
               timestamp = clock e\<rparr>,
              g'\<lparr>last_collection_time := Some (clock e)\<rparr>)))"

definition collect_all_metrics :: "env \<Rightarrow> gateway \<Rightarrow> (py_exception + outcome) \<times> gateway" where
  "collect_all_metrics e g =
     (case collect_sources e of
        Inl x \<Rightarrow> (Inl x, g)
      | Inr locals \<Rightarrow>
         (case save_and_report e g locals of (out, g') \<Rightarrow> (Inr out, g')))"

text \<open>A sequence of runs, one after the other, each with its own environment.\<close>

fun run_cycles :: "env list \<Rightarrow> gateway \<Rightarrow> gateway" where
  "run_cycles [] g = g"
| "run_cycles (e # es) g = run_cycles es (snd (collect_all_metrics e g))"

section \<open>The health endpoint\<close>




section \<open>Concrete upstream answers, databases and runs\<close>

definition ok_response :: "pyval \<Rightarrow> get_outcome" where
  "ok_response p = Got \<lparr>status_code = 200, body = Some p\<rparr>"

text \<open>The payload of the flattening law.\<close>

definition payload_ab :: pyval where
  "payload_ab =
     PDict [(''server_type'', PStr ''uccx''),
            (''metrics'', PDict
               [(''a'', PDict [(''value'', PInt 1), (''unit'', PStr ''count'')]),
                (''b'', PDict [(''value'', PFloat (Finite (5 / 2))),
                               (''unit'', PStr ''percent'')])])]"

definition payload_cucm :: pyval where
  "payload_cucm =
     PDict [(''server_type'', PStr ''cucm''),
            (''metrics'', PDict
               [(''active_calls'', PDict [(''value'', PInt 120), (''unit'', PStr ''count'')])])]"

text \<open>An entry without its \<^verbatim>\<open>unit\<close> key; no \<^verbatim>\<open>metrics\<close> field; a value that is not finite.\<close>

definition payload_missing_unit :: pyval where
  "payload_missing_unit =
     PDict [(''server_type'', PStr ''uccx''),
            (''metrics'', PDict [(''a'', PDict [(''value'', PInt 1)])])]"



definition accept_all :: db_verdict where
  "accept_all rows = None"

definition reject_all :: db_verdict where
  "reject_all rows = Some (Exc SQLAlchemyError ''database is unavailable'')"

definition empty_store :: store where
  "empty_store = \<lparr>table = [], pending = [], open_sessions = 0\<rparr>"

definition initial_gateway :: gateway where
  "initial_gateway =
     \<lparr>last_collection_time = None, metrics_collected_count = 0, db = empty_store\<rparr>"

definition record_a :: pyval where
  "record_a =
     PDict [(''server_type'', PStr ''uccx''), (''metric_name'', PStr ''a''),
            (''metric_value'', PInt 1), (''unit'', PStr ''count'')]"

definition record_b :: pyval where
  "record_b =
     PDict [(''server_type'', PStr ''uccx''), (''metric_name'', PStr ''b''),
            (''metric_value'', PFloat (Finite (5 / 2))), (''unit'', PStr ''percent'')]"

definition record_c :: pyval where
  "record_c =
     PDict [(''server_type'', PStr ''cucm''), (''metric_name'', PStr ''active_calls''),
            (''metric_value'', PInt 120), (''unit'', PStr ''count'')]"

definition env_ok :: env where
  "env_ok =
     \<lparr>uccx_reply = ok_response payload_ab, cucm_reply = ok_response payload_cucm,
      db_verdict = accept_all, clock = 1000\<rparr>"

definition env_store_down :: env where
  "env_store_down =
     \<lparr>uccx_reply = ok_response payload_ab, cucm_reply = ok_response payload_cucm,
      db_verdict = reject_all, clock = 1000\<rparr>"

definition env_uccx_down :: env where
  "env_uccx_down =
     \<lparr>uccx_reply = ConnectionFailed, cucm_reply = ok_response payload_cucm,
      db_verdict = accept_all, clock = 1000\<rparr>"

definition env_cucm_timeout :: env where
  "env_cucm_timeout =
     \<lparr>uccx_reply = ok_response payload_ab, cucm_reply = TimedOut,
      db_verdict = accept_all, clock = 1000\<rparr>"


definition env_missing_unit :: env where
  "env_missing_unit =
     \<lparr>uccx_reply = ok_response payload_missing_unit, cucm_reply = ok_response payload_cucm,
      db_verdict = accept_all, clock = 1000\<rparr>"



text \<open>A CUCM answer whose entry has no \<^verbatim>\<open>value\<close> key.\<close>

definition payload_cucm_missing_value :: pyval where
  "payload_cucm_missing_value =
     PDict [(''server_type'', PStr ''cucm''),
            (''metrics'', PDict [(''active_calls'', PDict [(''unit'', PStr ''count'')])])]"

definition env_cucm_missing_value :: env where
  "env_cucm_missing_value =
     \<lparr>uccx_reply = ok_response payload_ab, cucm_reply = ok_response payload_cucm_missing_value,
      db_verdict = accept_all, clock = 1000\<rparr>"


text \<open>The rows that the three records become.\<close>

definition row_a :: telephony_metric where
  "row_a =
     \<lparr>server_type = PStr ''uccx'', metric_name = PStr ''a'',
      metric_value = PInt 1, unit = PStr ''count''\<rparr>"

definition row_b :: telephony_metric where
  "row_b =
     \<lparr>server_type = PStr ''uccx'', metric_name = PStr ''b'',
      metric_value = PFloat (Finite (5 / 2)), unit = PStr ''percent''\<rparr>"

definition row_c :: telephony_metric where
  "row_c =
     \<lparr>server_type = PStr ''cucm'', metric_name = PStr ''active_calls'',
      metric_value = PInt 120, unit = PStr ''count''\<rparr>"

section \<open>Properties of the source clients and of the store\<close>

lemma flatten_metrics_well_formed:
  "flatten_metrics st items = Inr ms \<Longrightarrow> list_all (\<lambda>md. \<exists>m. make_metric md = Inr m) ms"
proof (induction items arbitrary: ms)
  case Nil
  then show ?case by simp
next
  case (Cons it items)
  obtain k info where it: "it = (k, info)" by (cases it)
  from Cons.prems it obtain v u rest where
    rest: "flatten_metrics st items = Inr rest"
    and ms: "ms = PDict [(''server_type'', st), (''metric_name'', PStr k),
                         (''metric_value'', v), (''unit'', u)] # rest"
    by (auto split: sum.splits)
  from Cons.IH [OF rest] ms show ?case
    by (simp add: make_metric_def)
qed

lemma flatten_metrics_values:
  "flatten_metrics st items = Inr ms \<Longrightarrow>
     length ms = length items \<and>
     map (\<lambda>md. py_subscript md ''metric_value'') ms =
       map (\<lambda>it. py_subscript (snd it) ''value'') items"
proof (induction items arbitrary: ms)
  case Nil
  then show ?case by simp
next
  case (Cons it items)
  obtain k info where it: "it = (k, info)" by (cases it)
  from Cons.prems it obtain v u rest where
    rest: "flatten_metrics st items = Inr rest"
    and v: "py_subscript info ''value'' = Inr v"
    and ms: "ms = PDict [(''server_type'', st), (''metric_name'', PStr k),
                         (''metric_value'', v), (''unit'', u)] # rest"
    by (auto split: sum.splits)
  from Cons.IH [OF rest] ms v it show ?case
    by simp
qed

lemma add_metrics_ok:
  "add_metrics ms c st = (Inr n, st') \<Longrightarrow>
     n = c + length ms \<and> table st' = table st \<and> open_sessions st' = open_sessions st \<and>
     (\<exists>rows. pending st' = pending st @ rows \<and>
        list_all2 (\<lambda>md m. make_metric md = Inr m) ms rows)"
proof (induction ms arbitrary: c st)
  case Nil
  then show ?case by simp
next
  case (Cons md ms)
  from Cons.prems obtain m where
    m: "make_metric md = Inr m"
    and rest: "add_metrics ms (c + 1) (db_add m st) = (Inr n, st')"
    by (auto split: sum.splits)
  from Cons.IH [OF rest] m show ?case
    by (auto simp: db_add_def)
qed

lemma add_metrics_raises:
  "add_metrics ms c st = (Inl x, st') \<Longrightarrow>
     table st' = table st \<and> open_sessions st' = open_sessions st"
proof (induction ms arbitrary: c st)
  case Nil
  then show ?case by simp
next
  case (Cons md ms)
  show ?case
  proof (cases "make_metric md")
    case (Inl e)
    with Cons.prems show ?thesis by simp
  next
    case (Inr m)
    with Cons.prems have "add_metrics ms (c + 1) (db_add m st) = (Inl x, st')" by simp
    from Cons.IH [OF this] show ?thesis by (simp add: db_add_def)
  qed
qed

lemma save_ok:
  assumes "save_metrics_to_database verdict ms st = (Inr n, st')"
  shows "n = length ms \<and> open_sessions st' = open_sessions st \<and> pending st' = [] \<and>
         (\<exists>rows. table st' = table st @ rows \<and>
            list_all2 (\<lambda>md m. make_metric md = Inr m) ms rows \<and> verdict rows = None)"
proof -
  from assms obtain st1 st2 where
    a: "add_metrics ms 0 (session_maker st) = (Inr n, st1)"
    and x: "DatabaseSession_exit verdict None st1 = (None, st2)"
    and st': "st' = st2"
    by (auto simp: save_metrics_to_database_def split: prod.splits sum.splits option.splits)
  from add_metrics_ok [OF a] obtain rows where
    n: "n = length ms" and t: "table st1 = table st"
    and o: "open_sessions st1 = open_sessions st + 1"
    and p: "pending st1 = rows"
    and r: "list_all2 (\<lambda>md m. make_metric md = Inr m) ms rows"
    by (auto simp: session_maker_def)
  from x p have v: "verdict rows = None"
    and st2: "st2 = db_close (st1\<lparr>table := table st1 @ rows, pending := []\<rparr>)"
    by (auto simp: DatabaseSession_exit_def db_commit_def split: option.splits sum.splits)
  from st2 st' t o n r v show ?thesis
    by (simp add: db_close_def)
qed

lemma save_raises:
  assumes "save_metrics_to_database verdict ms st = (Inl x, st')"
  shows "table st' = table st"
proof (cases "add_metrics ms 0 (session_maker st)")
  case (Pair r st1)
  show ?thesis
  proof (cases r)
    case (Inl e)
    with Pair assms add_metrics_raises [of ms 0 "session_maker st" e st1] show ?thesis
      by (auto simp: save_metrics_to_database_def DatabaseSession_exit_def db_close_def
            db_rollback_def session_maker_def)
  next
    case (Inr n)
    with Pair assms add_metrics_ok [of ms 0 "session_maker st" n st1] show ?thesis
      by (auto simp: save_metrics_to_database_def DatabaseSession_exit_def db_commit_def
            session_maker_def split: option.splits sum.splits)
  qed
qed

section \<open>The concrete answers and batches, evaluated\<close>

lemmas fetch_defs = fetch_uccx_metrics_def fetch_cucm_metrics_def fetch_metrics_def
  raise_for_status_def response_json_def ok_response_def

lemmas store_defs = save_metrics_to_database_def DatabaseSession_exit_def db_commit_def
  db_close_def db_rollback_def db_add_def session_maker_def make_metric_def

lemma fetch_uccx_payload_ab:
  "fetch_uccx_metrics (ok_response payload_ab) = Inr [record_a, record_b]"
  by (simp add: fetch_defs payload_ab_def record_a_def record_b_def)

lemma fetch_cucm_payload_cucm:
  "fetch_cucm_metrics (ok_response payload_cucm) = Inr [record_c]"
  by (simp add: fetch_defs payload_cucm_def record_c_def)

lemma fetch_uccx_missing_unit:
  "fetch_uccx_metrics (ok_response payload_missing_unit) = Inl (Exc KeyError ''unit'')"
  by (simp add: fetch_defs payload_missing_unit_def)

lemma fetch_uccx_down:
  "fetch_uccx_metrics ConnectionFailed = Inl (Exc ConnectionError ''connection failed'')"
  by (simp add: fetch_defs)

lemma fetch_cucm_timeout:
  "fetch_cucm_metrics TimedOut = Inl (Exc Timeout ''request timed out'')"
  by (simp add: fetch_defs)

lemma save_abc_accept:
  "save_metrics_to_database accept_all [record_a, record_b, record_c] st =
     (Inr 3, st\<lparr>table := table st @ [row_a, row_b, row_c], pending := []\<rparr>)"
  by (simp add: store_defs accept_all_def record_a_def record_b_def record_c_def
      row_a_def row_b_def row_c_def)

lemma save_abc_reject:
  "save_metrics_to_database reject_all [record_a, record_b, record_c] st =
     (Inl (Exc SQLAlchemyError ''database is unavailable''),
      st\<lparr>pending := [row_a, row_b, row_c], open_sessions := open_sessions st + 1\<rparr>)"
  by (simp add: store_defs reject_all_def record_a_def record_b_def record_c_def
      row_a_def row_b_def row_c_def)

lemma save_c_accept:
  "save_metrics_to_database accept_all [record_c] st =
     (Inr 1, st\<lparr>table := table st @ [row_c], pending := []\<rparr>)"
  by (simp add: store_defs accept_all_def record_c_def row_c_def)


lemma save_ab_accept:
  "save_metrics_to_database accept_all [record_a, record_b] st =
     (Inr 2, st\<lparr>table := table st @ [row_a, row_b], pending := []\<rparr>)"
  by (simp add: store_defs accept_all_def record_a_def record_b_def row_a_def row_b_def)

lemma fetch_cucm_missing_value:
  "fetch_cucm_metrics (ok_response payload_cucm_missing_value) = Inl (Exc KeyError ''value'')"
  by (simp add: fetch_defs payload_cucm_missing_value_def)



lemma env_ok_fields:
  "uccx_reply env_ok = ok_response payload_ab" "cucm_reply env_ok = ok_response payload_cucm"
  "db_verdict env_ok = accept_all" "clock env_ok = 1000"
  by (simp_all add: env_ok_def)

lemma env_store_down_fields:
  "uccx_reply env_store_down = ok_response payload_ab"
  "cucm_reply env_store_down = ok_response payload_cucm"
  "db_verdict env_store_down = reject_all" "clock env_store_down = 1000"
  by (simp_all add: env_store_down_def)

lemma collect_sources_env_ok:
  "collect_sources env_ok = Inr ([], [record_a, record_b, record_c], 2, 1)"
  by (simp add: collect_sources_def try_fetch_def env_ok_fields fetch_uccx_payload_ab
      fetch_cucm_payload_cucm numeral_2_eq_2)

lemma collect_sources_env_store_down:
  "collect_sources env_store_down = Inr ([], [record_a, record_b, record_c], 2, 1)"
  by (simp add: collect_sources_def try_fetch_def env_store_down_fields fetch_uccx_payload_ab
      fetch_cucm_payload_cucm numeral_2_eq_2)

section \<open>The two halves of a run\<close>


text \<open>Once the first half has ended normally, the run returns a dictionary.\<close>

lemma collect_all_metrics_returns:
  assumes "collect_sources e = Inr (errs, batch, n1, n2)"
  shows "\<exists>out. fst (collect_all_metrics e g) = Inr out \<and>
           uccx_metrics_count out = n1 \<and> cucm_metrics_count out = n2 \<and>
           timestamp out = clock e \<and> success out = (errors out = []) \<and>
           errors out = errs @
             (if batch = [] then []
              else (case fst (save_metrics_to_database (db_verdict e) batch (db g)) of
                      Inl x \<Rightarrow> [''Failed to save metrics to database: '' @ str_exc x]
                    | Inr n \<Rightarrow> [])) \<and>
           total_saved out =
             (if batch = [] then 0
              else (case fst (save_metrics_to_database (db_verdict e) batch (db g)) of
                      Inl x \<Rightarrow> 0 | Inr n \<Rightarrow> length batch))"
proof (cases "batch = []")
  case True
  with assms show ?thesis
    by (simp add: collect_all_metrics_def save_and_report_def)
next
  case False
  obtain r st where sv: "save_metrics_to_database (db_verdict e) batch (db g) = (r, st)"
    by (cases "save_metrics_to_database (db_verdict e) batch (db g)")
  show ?thesis
  proof (cases r)
    case (Inl x)
    with assms sv False show ?thesis
      by (simp add: collect_all_metrics_def save_and_report_def)
  next
    case (Inr n)
    with sv save_ok [of "db_verdict e" batch "db g" n st] have "n = length batch" by simp
    with Inr assms sv False show ?thesis
      by (simp add: collect_all_metrics_def save_and_report_def)
  qed
qed

text \<open>The globals and the store after a run.\<close>

lemma collect_all_metrics_store:
  assumes "collect_sources e = Inr (errs, batch, n1, n2)"
    and "batch \<noteq> []"
    and "save_metrics_to_database (db_verdict e) batch (db g) = (r, st)"
  shows "db (snd (collect_all_metrics e g)) = st \<and>
         last_collection_time (snd (collect_all_metrics e g)) = Some (clock e) \<and>
         metrics_collected_count (snd (collect_all_metrics e g)) =
           metrics_collected_count g + (case r of Inl x \<Rightarrow> 0 | Inr n \<Rightarrow> n)"
  using assms
  by (cases r) (simp_all add: collect_all_metrics_def save_and_report_def)

lemma collect_all_metrics_no_write:
  assumes "collect_sources e = Inr (errs, [], n1, n2)"
  shows "snd (collect_all_metrics e g) = g\<lparr>last_collection_time := Some (clock e)\<rparr>"
  using assms
  by (simp add: collect_all_metrics_def save_and_report_def)

lemma collect_all_metrics_raises:
  "fst (collect_all_metrics e g) = Inl x \<Longrightarrow> snd (collect_all_metrics e g) = g"
  by (auto simp: collect_all_metrics_def split: sum.splits prod.splits)

lemma collect_all_metrics_stamps:
  assumes "fst (collect_all_metrics e g) = Inr out"
  shows "last_collection_time (snd (collect_all_metrics e g)) = Some (clock e) \<and>
         timestamp out = clock e \<and>
         metrics_collected_count (snd (collect_all_metrics e g)) =
           metrics_collected_count g + total_saved out"
proof -
  from assms obtain errs batch n1 n2 where
    src: "collect_sources e = Inr (errs, batch, n1, n2)"
    by (cases "collect_sources e") (auto simp: collect_all_metrics_def)
  show ?thesis
  proof (cases "batch = []")
    case True
    with src assms show ?thesis
      by (auto simp: collect_all_metrics_def save_and_report_def)
  next
    case False
    obtain r st where sv: "save_metrics_to_database (db_verdict e) batch (db g) = (r, st)"
      by (cases "save_metrics_to_database (db_verdict e) batch (db g)")
    with src False assms show ?thesis
      by (cases r) (auto simp: collect_all_metrics_def save_and_report_def)
  qed
qed

lemma collect_all_metrics_count_mono:
  "metrics_collected_count g \<le> metrics_collected_count (snd (collect_all_metrics e g))"
proof (cases "fst (collect_all_metrics e g)")
  case (Inl x)
  then show ?thesis by (simp add: collect_all_metrics_raises)
next
  case (Inr out)
  then show ?thesis by (simp add: collect_all_metrics_stamps)
qed

lemma run_cycles_count_mono:
  "metrics_collected_count g \<le> metrics_collected_count (run_cycles es g)"
proof (induction es arbitrary: g)
  case Nil
  then show ?case by simp
next
  case (Cons e es)
  have "metrics_collected_count g \<le> metrics_collected_count (snd (collect_all_metrics e g))"
    by (rule collect_all_metrics_count_mono)
  also have "\<dots> \<le> metrics_collected_count (run_cycles es (snd (collect_all_metrics e g)))"
    by (rule Cons.IH)
  finally show ?case by simp
qed


text \<open>The rows that a run adds to the table when its store write succeeds.\<close>

lemma collect_all_metrics_saved_rows:
  assumes "collect_sources e = Inr (errs, batch, n1, n2)"
    and "batch = [] \<or> (\<exists>n. fst (save_metrics_to_database (db_verdict e) batch (db g)) = Inr n)"
  shows "\<exists>rows. table (db (snd (collect_all_metrics e g))) = table (db g) @ rows \<and>
           list_all2 (\<lambda>md m. make_metric md = Inr m) batch rows"
proof (cases "batch = []")
  case True
  with collect_all_metrics_no_write [of e errs n1 n2 g] assms(1) show ?thesis
    by simp
next
  case False
  with assms(2) obtain n st where
    sv: "save_metrics_to_database (db_verdict e) batch (db g) = (Inr n, st)"
    by (metis fst_conv surj_pair)
  from save_ok [OF sv] obtain rows where
    t: "table st = table (db g) @ rows"
    and r: "list_all2 (\<lambda>md m. make_metric md = Inr m) batch rows"
    by blast
  from collect_all_metrics_store [OF assms(1) False sv] t r show ?thesis
    by auto
qed



lemma collect_uccx_down:
  "collect_all_metrics env_uccx_down initial_gateway =
     (Inr \<lparr>success = False, uccx_metrics_count = 0, cucm_metrics_count = 1, total_saved = 1,
           errors = [''Failed to fetch UCCX metrics: connection failed''],
           timestamp = 1000\<rparr>,
      \<lparr>last_collection_time = Some 1000, metrics_collected_count = 1,
       db = \<lparr>table = [row_c], pending = [], open_sessions = 0\<rparr>\<rparr>)"
  by (simp add: collect_all_metrics_def save_and_report_def collect_sources_def try_fetch_def
      env_uccx_down_def fetch_uccx_down fetch_cucm_payload_cucm save_c_accept
      initial_gateway_def empty_store_def)

lemma collect_cucm_timeout:
  "collect_all_metrics env_cucm_timeout initial_gateway =
     (Inr \<lparr>success = False, uccx_metrics_count = 2, cucm_metrics_count = 0, total_saved = 2,
           errors = [''Failed to fetch CUCM metrics: request timed out''],
           timestamp = 1000\<rparr>,
      \<lparr>last_collection_time = Some 1000, metrics_collected_count = 2,
       db = \<lparr>table = [row_a, row_b], pending = [], open_sessions = 0\<rparr>\<rparr>)"
  by (simp add: collect_all_metrics_def save_and_report_def collect_sources_def try_fetch_def
      env_cucm_timeout_def fetch_uccx_payload_ab fetch_cucm_timeout save_ab_accept
      initial_gateway_def empty_store_def numeral_2_eq_2)

lemma count_after_env_ok:
  "metrics_collected_count (snd (collect_all_metrics env_ok g)) = metrics_collected_count g + 3"
  by (simp add: collect_all_metrics_def save_and_report_def collect_sources_env_ok
      env_ok_fields save_abc_accept)

lemma count_after_env_store_down:
  "metrics_collected_count (snd (collect_all_metrics env_store_down g)) =
     metrics_collected_count g"
  by (simp add: collect_all_metrics_def save_and_report_def collect_sources_env_store_down
      env_store_down_fields save_abc_reject)

lemma count_after_env_missing_unit:
  "snd (collect_all_metrics env_missing_unit g) = g"
  by (simp add: collect_all_metrics_def collect_sources_def try_fetch_def env_missing_unit_def
      fetch_uccx_missing_unit)

lemma run_three_cycles:
  "metrics_collected_count
     (run_cycles [env_ok, env_store_down, env_missing_unit, env_ok] initial_gateway) = 6"
  by (simp add: count_after_env_ok count_after_env_store_down count_after_env_missing_unit
      initial_gateway_def)

text \<open>
  An exception in the body of the \<^verbatim>\<open>with\<close> block: the session is rolled back and closed,
  and the table is as before.
\<close>

lemma save_body_raises_closes:
  assumes "add_metrics ms 0 (session_maker st) = (Inl x, st1)"
  shows "save_metrics_to_database verdict ms st =
           (Inl x, st1\<lparr>pending := [], open_sessions := open_sessions st\<rparr>) \<and> table st1 = table st"
  using assms add_metrics_raises [OF assms]
  by (simp add: save_metrics_to_database_def DatabaseSession_exit_def db_close_def
      db_rollback_def session_maker_def)

text \<open>
  A \<^verbatim>\<open>metrics\<close> field that is not a dictionary: \<^verbatim>\<open>.items()\<close> raises \<^verbatim>\<open>AttributeError\<close>.
\<close>

lemma fetch_metrics_not_a_dict:
  assumes "\<not> (400 \<le> status_code r \<and> status_code r < 600)"
    and "body r = Some (PDict d)"
    and "map_of d ''metrics'' = Some v"
    and "\<forall>items. v \<noteq> PDict items"
  shows "\<exists>x. fetch_metrics dflt (Got r) = Inl x \<and> exc_class_of x = AttributeError"
  using assms
  by (cases v) (simp_all add: fetch_metrics_def raise_for_status_def response_json_def)

section \<open>C1: which failures a run captures\<close>




section \<open>C2: every step succeeds\<close>

text \<open>
  C2: when both fetches succeed and the store write succeeds (or there is nothing to
  write), the run returns \<^verbatim>\<open>success = True\<close>, an empty \<^verbatim>\<open>errors\<close> list, the two counts
  of fetched records, and \<^verbatim>\<open>total_saved\<close> equal to the sum of the two counts.
\<close>

theorem all_succeed_outcome:
  assumes "fetch_uccx_metrics (uccx_reply e) = Inr a"
    and "fetch_cucm_metrics (cucm_reply e) = Inr b"
    and "a @ b = [] \<or> (\<exists>n. fst (save_metrics_to_database (db_verdict e) (a @ b) (db g)) = Inr n)"
  shows "\<exists>out. fst (collect_all_metrics e g) = Inr out \<and>
           success out \<and> errors out = [] \<and>
           uccx_metrics_count out = length a \<and> cucm_metrics_count out = length b \<and>
           total_saved out = uccx_metrics_count out + cucm_metrics_count out"
proof -
  have src: "collect_sources e = Inr ([], a @ b, length a, length b)"
    using assms(1,2) by (simp add: collect_sources_def try_fetch_def)
  show ?thesis
  proof (cases "a @ b = []")
    case True
    with src show ?thesis
      by (simp add: collect_all_metrics_def save_and_report_def)
  next
    case False
    with assms(3) obtain n st where
      sv: "save_metrics_to_database (db_verdict e) (a @ b) (db g) = (Inr n, st)"
      by (metis fst_conv surj_pair)
    from save_ok [OF sv] have "n = length a + length b" by simp
    with src sv False show ?thesis
      by (simp add: collect_all_metrics_def save_and_report_def)
  qed
qed

text \<open>The run with the two well-formed answers and a database that takes the batch.\<close>

theorem all_succeed_outcome_witness:
  "\<exists>out. fst (collect_all_metrics env_ok initial_gateway) = Inr out \<and>
           success out \<and> errors out = [] \<and>
           uccx_metrics_count out = 2 \<and> cucm_metrics_count out = 1 \<and>
           total_saved out = uccx_metrics_count out + cucm_metrics_count out"
proof -
  have 1: "fetch_uccx_metrics (uccx_reply env_ok) = Inr [record_a, record_b]"
    by (simp add: env_ok_def fetch_uccx_payload_ab)
  have 2: "fetch_cucm_metrics (cucm_reply env_ok) = Inr [record_c]"
    by (simp add: env_ok_def fetch_cucm_payload_cucm)
  have 3: "[record_a, record_b] @ [record_c] = [] \<or>
      (\<exists>n. fst (save_metrics_to_database (db_verdict env_ok) ([record_a, record_b] @ [record_c])
                 (db initial_gateway)) = Inr n)"
    by (simp add: env_ok_def save_abc_accept)
  from all_succeed_outcome [OF 1 2 3] show ?thesis by (simp add: numeral_2_eq_2)
qed

section \<open>C3: the store write fails\<close>

text \<open>
  C3: when both fetches succeed and the store write raises, the run returns
  \<^verbatim>\<open>total_saved = 0\<close>, exactly one entry in \<^verbatim>\<open>errors\<close> (the store's message), the two
  counts of what was fetched, and \<^verbatim>\<open>success = False\<close>.
\<close>

theorem store_failure_outcome:
  assumes "fetch_uccx_metrics (uccx_reply e) = Inr a"
    and "fetch_cucm_metrics (cucm_reply e) = Inr b"
    and "a @ b \<noteq> []"
    and "fst (save_metrics_to_database (db_verdict e) (a @ b) (db g)) = Inl x"
  shows "\<exists>out. fst (collect_all_metrics e g) = Inr out \<and>
           total_saved out = 0 \<and>
           errors out = [''Failed to save metrics to database: '' @ str_exc x] \<and>
           length (errors out) = 1 \<and>
           uccx_metrics_count out = length a \<and> cucm_metrics_count out = length b \<and>
           \<not> success out"
proof -
  have src: "collect_sources e = Inr ([], a @ b, length a, length b)"
    using assms(1,2) by (simp add: collect_sources_def try_fetch_def)
  from assms(4) obtain st where
    sv: "save_metrics_to_database (db_verdict e) (a @ b) (db g) = (Inl x, st)"
    by (metis fst_conv surj_pair)
  from src sv assms(3) show ?thesis
    by (simp add: collect_all_metrics_def save_and_report_def)
qed

text \<open>The run with the two well-formed answers and a database that rejects the batch.\<close>

theorem store_failure_outcome_witness:
  "\<exists>out. fst (collect_all_metrics env_store_down initial_gateway) = Inr out \<and>
           total_saved out = 0 \<and>
           errors out = [''Failed to save metrics to database: database is unavailable''] \<and>
           length (errors out) = 1 \<and>
           uccx_metrics_count out = 2 \<and> cucm_metrics_count out = 1 \<and>
           \<not> success out"
proof -
  have 1: "fetch_uccx_metrics (uccx_reply env_store_down) = Inr [record_a, record_b]"
    by (simp add: env_store_down_def fetch_uccx_payload_ab)
  have 2: "fetch_cucm_metrics (cucm_reply env_store_down) = Inr [record_c]"
    by (simp add: env_store_down_def fetch_cucm_payload_cucm)
  have 3: "[record_a, record_b] @ [record_c] \<noteq> []" by simp
  have 4: "fst (save_metrics_to_database (db_verdict env_store_down)
             ([record_a, record_b] @ [record_c]) (db initial_gateway)) =
           Inl (Exc SQLAlchemyError ''database is unavailable'')"
    by (simp add: env_store_down_def save_abc_reject)
  from store_failure_outcome [OF 1 2 3 4] show ?thesis by (simp add: numeral_2_eq_2)
qed

section \<open>C4: one source fails\<close>

text \<open>
  The CUCM answer has an entry without its \<^verbatim>\<open>value\<close> key and the UCCX answer is well
  formed: \<^verbatim>\<open>fetch_cucm_metrics\<close> raises \<^verbatim>\<open>KeyError\<close>, which the run does not catch, so
  there is no returned dictionary, and the UCCX records are not saved.
\<close>

theorem malformed_entry_in_one_source_propagates:
  "collect_all_metrics env_cucm_missing_value initial_gateway =
     (Inl (Exc KeyError ''value''), initial_gateway)"
  by (simp add: collect_all_metrics_def collect_sources_def try_fetch_def
      env_cucm_missing_value_def fetch_uccx_payload_ab fetch_cucm_missing_value)

text \<open>
  C4, as the code has it: when the fetch of exactly one source raises a
  \<^verbatim>\<open>requests.RequestException\<close>, the other fetch succeeds and the store write succeeds (or
  there is nothing to write), the failed source's count is 0, \<^verbatim>\<open>errors\<close> has exactly one
  entry, which names that source, \<^verbatim>\<open>total_saved\<close> is the count of the other source,
  \<^verbatim>\<open>success\<close> is false, and the table has grown by one row for each record of the other
  source. The first conjunct is UCCX failing, the second CUCM failing.
\<close>

theorem one_source_fails_outcome:
  "(fetch_uccx_metrics (uccx_reply e) = Inl x \<and> is_RequestException x \<and>
    fetch_cucm_metrics (cucm_reply e) = Inr b \<and>
    (b = [] \<or> (\<exists>n. fst (save_metrics_to_database (db_verdict e) b (db g)) = Inr n))
    \<longrightarrow> (\<exists>out rows. fst (collect_all_metrics e g) = Inr out \<and>
           uccx_metrics_count out = 0 \<and>
           errors out = [''Failed to fetch UCCX metrics: '' @ str_exc x] \<and>
           cucm_metrics_count out = length b \<and> total_saved out = length b \<and>
           \<not> success out \<and>
           table (db (snd (collect_all_metrics e g))) = table (db g) @ rows \<and>
           list_all2 (\<lambda>md m. make_metric md = Inr m) b rows)) \<and>
   (fetch_uccx_metrics (uccx_reply e') = Inr a \<and>
    fetch_cucm_metrics (cucm_reply e') = Inl x' \<and> is_RequestException x' \<and>
    (a = [] \<or> (\<exists>n. fst (save_metrics_to_database (db_verdict e') a (db g')) = Inr n))
    \<longrightarrow> (\<exists>out rows. fst (collect_all_metrics e' g') = Inr out \<and>
           cucm_metrics_count out = 0 \<and>
           errors out = [''Failed to fetch CUCM metrics: '' @ str_exc x'] \<and>
           uccx_metrics_count out = length a \<and> total_saved out = length a \<and>
           \<not> success out \<and>
           table (db (snd (collect_all_metrics e' g'))) = table (db g') @ rows \<and>
           list_all2 (\<lambda>md m. make_metric md = Inr m) a rows))"
proof (intro conjI impI)
  assume h: "fetch_uccx_metrics (uccx_reply e) = Inl x \<and> is_RequestException x \<and>
    fetch_cucm_metrics (cucm_reply e) = Inr b \<and>
    (b = [] \<or> (\<exists>n. fst (save_metrics_to_database (db_verdict e) b (db g)) = Inr n))"
  then have src: "collect_sources e =
      Inr ([''Failed to fetch UCCX metrics: '' @ str_exc x], b, 0, length b)"
    by (simp add: collect_sources_def try_fetch_def)
  from h have acc: "b = [] \<or>
      (\<exists>n. fst (save_metrics_to_database (db_verdict e) b (db g)) = Inr n)"
    by blast
  from collect_all_metrics_returns [OF src, of g] h obtain out where
    "fst (collect_all_metrics e g) = Inr out \<and>
           uccx_metrics_count out = 0 \<and>
           errors out = [''Failed to fetch UCCX metrics: '' @ str_exc x] \<and>
           cucm_metrics_count out = length b \<and> total_saved out = length b \<and>
           \<not> success out"
    by auto
  with collect_all_metrics_saved_rows [OF src acc]
  show "\<exists>out rows. fst (collect_all_metrics e g) = Inr out \<and>
           uccx_metrics_count out = 0 \<and>
           errors out = [''Failed to fetch UCCX metrics: '' @ str_exc x] \<and>
           cucm_metrics_count out = length b \<and> total_saved out = length b \<and>
           \<not> success out \<and>
           table (db (snd (collect_all_metrics e g))) = table (db g) @ rows \<and>
           list_all2 (\<lambda>md m. make_metric md = Inr m) b rows"
    by blast
next
  assume h: "fetch_uccx_metrics (uccx_reply e') = Inr a \<and>
    fetch_cucm_metrics (cucm_reply e') = Inl x' \<and> is_RequestException x' \<and>
    (a = [] \<or> (\<exists>n. fst (save_metrics_to_database (db_verdict e') a (db g')) = Inr n))"
  then have src: "collect_sources e' =
      Inr ([''Failed to fetch CUCM metrics: '' @ str_exc x'], a, length a, 0)"
    by (simp add: collect_sources_def try_fetch_def)
  from h have acc: "a = [] \<or>
      (\<exists>n. fst (save_metrics_to_database (db_verdict e') a (db g')) = Inr n)"
    by blast
  from collect_all_metrics_returns [OF src, of g'] h obtain out where
    "fst (collect_all_metrics e' g') = Inr out \<and>
           cucm_metrics_count out = 0 \<and>
           errors out = [''Failed to fetch CUCM metrics: '' @ str_exc x'] \<and>
           uccx_metrics_count out = length a \<and> total_saved out = length a \<and>
           \<not> success out"
    by auto
  with collect_all_metrics_saved_rows [OF src acc]
  show "\<exists>out rows. fst (collect_all_metrics e' g') = Inr out \<and>
           cucm_metrics_count out = 0 \<and>
           errors out = [''Failed to fetch CUCM metrics: '' @ str_exc x'] \<and>
           uccx_metrics_count out = length a \<and> total_saved out = length a \<and>
           \<not> success out \<and>
           table (db (snd (collect_all_metrics e' g'))) = table (db g') @ rows \<and>
           list_all2 (\<lambda>md m. make_metric md = Inr m) a rows"
    by blast
qed

text \<open>UCCX unreachable with CUCM answering, and CUCM timing out with UCCX answering.\<close>

theorem one_source_fails_outcome_witness:
  "(\<exists>out. fst (collect_all_metrics env_uccx_down initial_gateway) = Inr out \<and>
           uccx_metrics_count out = 0 \<and>
           errors out = [''Failed to fetch UCCX metrics: connection failed''] \<and>
           cucm_metrics_count out = 1 \<and> total_saved out = 1 \<and> \<not> success out \<and>
           table (db (snd (collect_all_metrics env_uccx_down initial_gateway))) = [row_c]) \<and>
   (\<exists>out. fst (collect_all_metrics env_cucm_timeout initial_gateway) = Inr out \<and>
           cucm_metrics_count out = 0 \<and>
           errors out = [''Failed to fetch CUCM metrics: request timed out''] \<and>
           uccx_metrics_count out = 2 \<and> total_saved out = 2 \<and> \<not> success out \<and>
           table (db (snd (collect_all_metrics env_cucm_timeout initial_gateway))) =
             [row_a, row_b])"
proof -
  have 1: "fetch_uccx_metrics (uccx_reply env_uccx_down) =
             Inl (Exc ConnectionError ''connection failed'') \<and>
           is_RequestException (Exc ConnectionError ''connection failed'') \<and>
           fetch_cucm_metrics (cucm_reply env_uccx_down) = Inr [record_c] \<and>
           ([record_c] = [] \<or>
            (\<exists>n. fst (save_metrics_to_database (db_verdict env_uccx_down) [record_c]
                        (db initial_gateway)) = Inr n))"
    by (simp add: env_uccx_down_def fetch_uccx_down fetch_cucm_payload_cucm save_c_accept)
  have 2: "fetch_uccx_metrics (uccx_reply env_cucm_timeout) = Inr [record_a, record_b] \<and>
           fetch_cucm_metrics (cucm_reply env_cucm_timeout) =
             Inl (Exc Timeout ''request timed out'') \<and>
           is_RequestException (Exc Timeout ''request timed out'') \<and>
           ([record_a, record_b] = [] \<or>
            (\<exists>n. fst (save_metrics_to_database (db_verdict env_cucm_timeout)
                        [record_a, record_b] (db initial_gateway)) = Inr n))"
    by (simp add: env_cucm_timeout_def fetch_uccx_payload_ab fetch_cucm_timeout save_ab_accept)
  from one_source_fails_outcome [of env_uccx_down "Exc ConnectionError ''connection failed''"
      "[record_c]" initial_gateway env_cucm_timeout "[record_a, record_b]"
      "Exc Timeout ''request timed out''" initial_gateway] 1 2
  show ?thesis
    by (simp add: numeral_2_eq_2 collect_uccx_down collect_cucm_timeout)
qed

section \<open>C5: the store write as a unit\<close>

text \<open>
  C5 at a batch of two well-formed records and a database that rejects the commit:
  \<^verbatim>\<open>commit()\<close> raises inside \<^verbatim>\<open>__exit__\<close>, so neither \<^verbatim>\<open>rollback()\<close> nor \<^verbatim>\<open>close()\<close> is
  called. The table has no partial rows, but the session stays open with its two pending
  objects.
\<close>

theorem commit_failure_leaves_session_open:
  "save_metrics_to_database reject_all [record_a, record_b] empty_store =
     (Inl (Exc SQLAlchemyError ''database is unavailable''),
      \<lparr>table = [], pending = [row_a, row_b], open_sessions = 1\<rparr>)"
  by (simp add: store_defs reject_all_def record_a_def record_b_def row_a_def row_b_def
      empty_store_def)

section \<open>C6: values that are not finite\<close>




section \<open>C7: how a fetch fails\<close>

text \<open>
  A response with status 200 whose body has no \<^verbatim>\<open>metrics\<close> field: the default of
  \<^verbatim>\<open>data.get("metrics", {})\<close> makes both fetch functions return the empty list.
\<close>

theorem missing_metrics_yields_empty_list:
  "fetch_uccx_metrics
     (Got \<lparr>status_code = 200, body = Some (PDict [(''server_type'', PStr ''uccx'')])\<rparr>) =
     Inr [] \<and>
   fetch_cucm_metrics
     (Got \<lparr>status_code = 200, body = Some (PDict [(''server_type'', PStr ''cucm'')])\<rparr>) =
     Inr []"
  by (simp add: fetch_uccx_metrics_def fetch_cucm_metrics_def fetch_metrics_def
      raise_for_status_def response_json_def)

text \<open>
  C7, as the code has it: a failed connection, a timeout and a response with a status
  from 400 to 599 make both fetch functions raise a \<^verbatim>\<open>requests.RequestException\<close>; a
  response with another status whose body is a dictionary without the \<^verbatim>\<open>metrics\<close> key
  makes them return the empty list.
\<close>

theorem fetch_failure_kinds:
  "(\<exists>x. fetch_uccx_metrics ConnectionFailed = Inl x \<and> is_RequestException x) \<and>
   (\<exists>x. fetch_cucm_metrics ConnectionFailed = Inl x \<and> is_RequestException x) \<and>
   (\<exists>x. fetch_uccx_metrics TimedOut = Inl x \<and> is_RequestException x) \<and>
   (\<exists>x. fetch_cucm_metrics TimedOut = Inl x \<and> is_RequestException x) \<and>
   (400 \<le> status_code r \<and> status_code r < 600 \<longrightarrow>
      (\<exists>x. fetch_uccx_metrics (Got r) = Inl x \<and> is_RequestException x) \<and>
      (\<exists>x. fetch_cucm_metrics (Got r) = Inl x \<and> is_RequestException x)) \<and>
   (\<not> (400 \<le> status_code r' \<and> status_code r' < 600) \<and> body r' = Some (PDict d) \<and>
      map_of d ''metrics'' = None \<longrightarrow>
      fetch_uccx_metrics (Got r') = Inr [] \<and> fetch_cucm_metrics (Got r') = Inr [])"
  by (simp add: fetch_uccx_metrics_def fetch_cucm_metrics_def fetch_metrics_def
      raise_for_status_def response_json_def)

text \<open>Status 503, and status 200 with a body that has only \<^verbatim>\<open>server_type\<close>.\<close>

theorem fetch_failure_kinds_witness:
  "(\<exists>x. fetch_uccx_metrics (Got \<lparr>status_code = 503, body = None\<rparr>) = Inl x \<and>
        is_RequestException x) \<and>
   (\<exists>x. fetch_cucm_metrics (Got \<lparr>status_code = 503, body = None\<rparr>) = Inl x \<and>
        is_RequestException x) \<and>
   fetch_uccx_metrics (Got \<lparr>status_code = 200,
      body = Some (PDict [(''server_type'', PStr ''cucm'')])\<rparr>) = Inr [] \<and>
   fetch_cucm_metrics (Got \<lparr>status_code = 200,
      body = Some (PDict [(''server_type'', PStr ''cucm'')])\<rparr>) = Inr []"
  using fetch_failure_kinds [of "\<lparr>status_code = 503, body = None\<rparr>"
      "\<lparr>status_code = 200, body = Some (PDict [(''server_type'', PStr ''cucm'')])\<rparr>"
      "[(''server_type'', PStr ''cucm'')]"]
  by simp

section \<open>C8: the flattening law and the order of the batch\<close>

text \<open>
  C8: for the payload with the metrics \<^verbatim>\<open>a\<close> (value 1, unit count) and \<^verbatim>\<open>b\<close> (value 2.5,
  unit percent) and the tag \<^verbatim>\<open>uccx\<close>, \<^verbatim>\<open>fetch_uccx_metrics\<close> returns exactly the two records
  for \<^verbatim>\<open>a\<close> and \<^verbatim>\<open>b\<close>, in that order, with the tag, the names, the values and the units
  as they were in the payload. When both fetches succeed, the batch is the UCCX records
  followed by the CUCM records.
\<close>

theorem flattening_law:
  "fetch_uccx_metrics
     (Got \<lparr>status_code = 200,
           body = Some (PDict [(''server_type'', PStr ''uccx''),
             (''metrics'', PDict
               [(''a'', PDict [(''value'', PInt 1), (''unit'', PStr ''count'')]),
                (''b'', PDict [(''value'', PFloat (Finite (5 / 2))),
                               (''unit'', PStr ''percent'')])])])\<rparr>) =
     Inr [PDict [(''server_type'', PStr ''uccx''), (''metric_name'', PStr ''a''),
                 (''metric_value'', PInt 1), (''unit'', PStr ''count'')],
          PDict [(''server_type'', PStr ''uccx''), (''metric_name'', PStr ''b''),
                 (''metric_value'', PFloat (Finite (5 / 2))), (''unit'', PStr ''percent'')]] \<and>
   (fetch_uccx_metrics (uccx_reply e) = Inr a \<and> fetch_cucm_metrics (cucm_reply e) = Inr b \<longrightarrow>
      collect_sources e = Inr ([], a @ b, length a, length b))"
  by (simp add: fetch_uccx_metrics_def fetch_metrics_def raise_for_status_def
      response_json_def collect_sources_def try_fetch_def)

text \<open>The two well-formed answers: two UCCX records, then one CUCM record.\<close>

theorem flattening_law_witness:
  "collect_sources env_ok = Inr ([], [record_a, record_b] @ [record_c], 2, 1)"
proof -
  have "fetch_uccx_metrics (uccx_reply env_ok) = Inr [record_a, record_b] \<and>
        fetch_cucm_metrics (cucm_reply env_ok) = Inr [record_c]"
    by (simp add: env_ok_def fetch_uccx_payload_ab fetch_cucm_payload_cucm)
  with flattening_law [of env_ok "[record_a, record_b]" "[record_c]"] show ?thesis
    by (simp add: numeral_2_eq_2)
qed

section \<open>C9: what the health endpoint reports\<close>




section \<open>C10: the lifetime counter\<close>

text \<open>
  C10: over any sequence of runs \<^verbatim>\<open>metrics_collected_count\<close> never decreases. A run whose
  store write succeeds adds exactly its \<^verbatim>\<open>total_saved\<close>; a run whose batch is empty or
  whose store write raises leaves the counter as it was, and so does a run that raises.
\<close>

theorem metrics_collected_count_monotone:
  "metrics_collected_count g \<le> metrics_collected_count (run_cycles es g) \<and>
   (collect_sources e1 = Inr (errs1, batch1, m1, n1) \<and> batch1 \<noteq> [] \<and>
    fst (save_metrics_to_database (db_verdict e1) batch1 (db g1)) = Inr k \<longrightarrow>
      (\<exists>out. fst (collect_all_metrics e1 g1) = Inr out \<and> total_saved out = k \<and>
         metrics_collected_count (snd (collect_all_metrics e1 g1)) =
           metrics_collected_count g1 + total_saved out)) \<and>
   (collect_sources e2 = Inr (errs2, batch2, m2, n2) \<and>
    (batch2 = [] \<or>
     (\<exists>x. fst (save_metrics_to_database (db_verdict e2) batch2 (db g2)) = Inl x)) \<longrightarrow>
      metrics_collected_count (snd (collect_all_metrics e2 g2)) = metrics_collected_count g2) \<and>
   (fst (collect_all_metrics e3 g3) = Inl x3 \<longrightarrow>
      metrics_collected_count (snd (collect_all_metrics e3 g3)) = metrics_collected_count g3)"
proof (intro conjI impI)
  show "metrics_collected_count g \<le> metrics_collected_count (run_cycles es g)"
    by (rule run_cycles_count_mono)
next
  assume h: "collect_sources e1 = Inr (errs1, batch1, m1, n1) \<and> batch1 \<noteq> [] \<and>
    fst (save_metrics_to_database (db_verdict e1) batch1 (db g1)) = Inr k"
  then obtain st where
    sv: "save_metrics_to_database (db_verdict e1) batch1 (db g1) = (Inr k, st)"
    by (metis fst_conv surj_pair)
  from save_ok [OF sv] have k: "k = length batch1" by simp
  from h collect_all_metrics_returns [of e1 errs1 batch1 m1 n1 g1] obtain out where
    out: "fst (collect_all_metrics e1 g1) = Inr out" and "total_saved out = length batch1"
    by auto
  with k collect_all_metrics_stamps [OF out]
  show "\<exists>out. fst (collect_all_metrics e1 g1) = Inr out \<and> total_saved out = k \<and>
         metrics_collected_count (snd (collect_all_metrics e1 g1)) =
           metrics_collected_count g1 + total_saved out"
    by auto
next
  assume h: "collect_sources e2 = Inr (errs2, batch2, m2, n2) \<and>
    (batch2 = [] \<or>
     (\<exists>x. fst (save_metrics_to_database (db_verdict e2) batch2 (db g2)) = Inl x))"
  from h collect_all_metrics_returns [of e2 errs2 batch2 m2 n2 g2] obtain out where
    out: "fst (collect_all_metrics e2 g2) = Inr out" and "total_saved out = 0"
    by auto
  with collect_all_metrics_stamps [OF out]
  show "metrics_collected_count (snd (collect_all_metrics e2 g2)) = metrics_collected_count g2"
    by simp
next
  assume "fst (collect_all_metrics e3 g3) = Inl x3"
  then show "metrics_collected_count (snd (collect_all_metrics e3 g3)) =
      metrics_collected_count g3"
    by (simp add: collect_all_metrics_raises)
qed

text \<open>
  Four runs from the initial state: all well, store down, a malformed UCCX entry, all
  well again.
\<close>

theorem metrics_collected_count_monotone_witness:
  "metrics_collected_count initial_gateway \<le>
     metrics_collected_count
       (run_cycles [env_ok, env_store_down, env_missing_unit, env_ok] initial_gateway) \<and>
   metrics_collected_count
     (run_cycles [env_ok, env_store_down, env_missing_unit, env_ok] initial_gateway) = 6 \<and>
   (\<exists>out. fst (collect_all_metrics env_ok initial_gateway) = Inr out \<and> total_saved out = 3 \<and>
      metrics_collected_count (snd (collect_all_metrics env_ok initial_gateway)) =
        metrics_collected_count initial_gateway + total_saved out) \<and>
   metrics_collected_count (snd (collect_all_metrics env_store_down initial_gateway)) =
     metrics_collected_count initial_gateway \<and>
   metrics_collected_count (snd (collect_all_metrics env_missing_unit initial_gateway)) =
     metrics_collected_count initial_gateway"
proof -
  have 1: "collect_sources env_ok = Inr ([], [record_a, record_b, record_c], 2, 1) \<and>
      [record_a, record_b, record_c] \<noteq> [] \<and>
      fst (save_metrics_to_database (db_verdict env_ok) [record_a, record_b, record_c]
             (db initial_gateway)) = Inr 3"
    by (simp add: collect_sources_env_ok env_ok_fields save_abc_accept)
  have 2: "collect_sources env_store_down = Inr ([], [record_a, record_b, record_c], 2, 1) \<and>
      ([record_a, record_b, record_c] = [] \<or>
       (\<exists>x. fst (save_metrics_to_database (db_verdict env_store_down)
                   [record_a, record_b, record_c] (db initial_gateway)) = Inl x))"
    by (simp add: collect_sources_env_store_down env_store_down_fields save_abc_reject)
  have 3: "fst (collect_all_metrics env_missing_unit initial_gateway) =
      Inl (Exc KeyError ''unit'')"
    by (simp add: collect_all_metrics_def collect_sources_def try_fetch_def
        env_missing_unit_def fetch_uccx_missing_unit)
  from metrics_collected_count_monotone [of initial_gateway
      "[env_ok, env_store_down, env_missing_unit, env_ok]"
      env_ok "[]" "[record_a, record_b, record_c]" 2 1 initial_gateway 3
      env_store_down "[]" "[record_a, record_b, record_c]" 2 1 initial_gateway
      env_missing_unit initial_gateway "Exc KeyError ''unit''"] 1 2 3 run_three_cycles
  show ?thesis
    by simp
qed

end
